theory Spec2Isabelle
  imports Complex_Main
begin

section \<open>Data model of the pinch plugin\<close>

text \<open>
  The plugin \<^verbatim>\<open>Pinch\<close> of \<^verbatim>\<open>src/plugins/Pinch.ts\<close> is embedded as pure functions
  on an explicit world state. JavaScript numbers are idealised as the reals: rounding,
  infinities and NaN are outside the model, \<^verbatim>\<open>Math.sqrt\<close> is \<^const>\<open>sqrt\<close> and
  \<^verbatim>\<open>Math.pow(d, 2)\<close> is \<open>d\<^sup>2\<close>.
\<close>

text \<open>\<^verbatim>\<open>PointData\<close>: the fields \<^verbatim>\<open>x\<close> and \<^verbatim>\<open>y\<close>.\<close>

record point =
  px :: real
  py :: real

text \<open>The values \<^verbatim>\<open>'all'\<close>, \<^verbatim>\<open>'x'\<close> and \<^verbatim>\<open>'y'\<close> of the option \<^verbatim>\<open>axis\<close>.\<close>

datatype axis = AxisAll | AxisX | AxisY

text \<open>\<^verbatim>\<open>Required<IPinchOptions>\<close>.\<close>

record options =
  noDrag :: bool
  percent :: real
  center :: "point option"
  factor :: real
  axis :: axis

definition DEFAULT_PINCH_OPTIONS :: options where
  "DEFAULT_PINCH_OPTIONS =
     \<lparr>noDrag = False, percent = 1, center = None, factor = 1, axis = AxisAll\<rparr>"

text \<open>
  \<^verbatim>\<open>IViewportTouch\<close>: the fields \<^verbatim>\<open>id\<close> and \<^verbatim>\<open>last\<close>; \<^verbatim>\<open>last\<close> is null until the
  plugin stores a position.
\<close>

record touch =
  id_t :: nat
  last_t :: "point option"

text \<open>\<^verbatim>\<open>FederatedPointerEvent\<close>: the two fields the plugin reads.\<close>

record pointer_event =
  pointerId :: nat
  global :: point

text \<open>
  The fields of the viewport that the plugin reads and writes: \<^verbatim>\<open>scale.x\<close>,
  \<^verbatim>\<open>scale.y\<close>, \<^verbatim>\<open>x\<close>, \<^verbatim>\<open>y\<close>, and the screen size that defines its visual centre.
\<close>

record viewport =
  scale_x :: real
  scale_y :: real
  pos_x :: real
  pos_y :: real
  screenWidth :: real
  screenHeight :: real

text \<open>
  The fields of the class \<^verbatim>\<open>Pinch\<close>; \<^verbatim>\<open>paused\<close> is inherited from \<^verbatim>\<open>Plugin\<close>.
  \<^verbatim>\<open>lastCenter\<close> is undefined or null when it is \<^const>\<open>None\<close>.
\<close>

record pinch =
  options :: options
  paused :: bool
  active :: bool
  pinching :: bool
  moved :: bool
  lastCenter :: "point option"

text \<open>The events the plugin emits on the viewport; \<open>Zoomed\<close> carries its \<^verbatim>\<open>center\<close>.\<close>

datatype event = Zoomed point | Moved | PinchStart | PinchEnd

text \<open>
  The state one call works on: the plugin \<^verbatim>\<open>this\<close>, the viewport \<^verbatim>\<open>this.parent\<close> and
  the contact list \<^verbatim>\<open>this.parent.input.touches\<close>, which the plugin mutates in place.
\<close>

record world =
  plugin :: pinch
  parent :: viewport
  touches :: "touch list"

text \<open>
  The collaborators the plugin calls and that are not part of it are parameters of the
  model: the three coordinate conversions (each may depend on the viewport's current
  transform) and the optional \<^verbatim>\<open>clamp-zoom\<close> plugin.
  \<^item> \<open>toLocal_global\<close> is \<^verbatim>\<open>(this.parent.parent || this.parent).toLocal(e.global, ...)\<close>;
  \<^item> \<open>toLocal_viewport\<close> is \<^verbatim>\<open>this.parent.toLocal(point, this.parent.parent || this.parent)\<close>;
  \<^item> \<open>toLocal_parent\<close> is \<^verbatim>\<open>(this.parent.parent || this.parent).toLocal(oldPoint, this.parent)\<close>;
  \<^item> \<open>clampZoom\<close> is \<^verbatim>\<open>this.parent.plugins.get('clamp-zoom', true)\<close> with its \<^verbatim>\<open>clamp()\<close>.
\<close>

record scene =
  toLocal_global :: "viewport \<Rightarrow> point \<Rightarrow> point"
  toLocal_viewport :: "viewport \<Rightarrow> point \<Rightarrow> point"
  toLocal_parent :: "viewport \<Rightarrow> point \<Rightarrow> point"
  clampZoom :: "(viewport \<Rightarrow> viewport) option"

section \<open>Operations\<close>

text \<open>
  Modelled from the spec: \<^verbatim>\<open>InputManager.count()\<close> is missing; the spec's active-contact
  query "returns the count and an ordered list of current touch contacts", so the count
  is the length of the contact list.
\<close>

definition count :: "world \<Rightarrow> nat" where
  "count w = length (touches w)"

text \<open>Every operation returns its boolean result, the events it emitted, and the new state.\<close>

type_synonym outcome = "bool \<times> event list \<times> world"

definition down :: "world \<Rightarrow> outcome" where
  "down w =
     (if count w \<ge> 2
      then (True, [], w\<lparr>plugin := (plugin w)\<lparr>active := True\<rparr>\<rparr>)
      else (False, [], w))"

definition isAxisX :: "pinch \<Rightarrow> bool" where
  "isAxisX p = (axis (options p) \<in> {AxisAll, AxisX})"

definition isAxisY :: "pinch \<Rightarrow> bool" where
  "isAxisY p = (axis (options p) \<in> {AxisAll, AxisY})"

definition up :: "world \<Rightarrow> outcome" where
  "up w =
     (if pinching (plugin w)
      then (if length (touches w) \<le> 1
            then (True, [PinchEnd],
                  w\<lparr>plugin := (plugin w)\<lparr>active := False, lastCenter := None,
                       pinching := False, moved := False\<rparr>\<rparr>)
            else (False, [], w))
      else (False, [], w))"

text \<open>
  The separation of two contacts, written twice in \<^verbatim>\<open>move\<close> as
  \<^verbatim>\<open>Math.sqrt(Math.pow(second.last.x - first.last.x, 2) + Math.pow(second.last.y - first.last.y, 2))\<close>.
\<close>

definition distance :: "point \<Rightarrow> point \<Rightarrow> real" where
  "distance a b = sqrt ((px b - px a)\<^sup>2 + (py b - py a)\<^sup>2)"

text \<open>
  Modelled from the spec: \<^verbatim>\<open>Viewport.moveCenter\<close> is missing; the spec says it "move[s] the
  viewport so that \<^verbatim>\<open>fixedCenter\<close> is centered". A world point \<open>c\<close> is drawn at
  \<open>c * scale + position\<close>, and the visual centre is the middle of the screen; only the
  position is written.
\<close>

definition centered :: "point \<Rightarrow> viewport \<Rightarrow> bool" where
  "centered c v =
     (px c * scale_x v + pos_x v = screenWidth v / 2 \<and>
      py c * scale_y v + pos_y v = screenHeight v / 2)"

definition moveCenter :: "point \<Rightarrow> viewport \<Rightarrow> viewport" where
  "moveCenter c v =
     v\<lparr>pos_x := screenWidth v / 2 - px c * scale_x v,
       pos_y := screenHeight v / 2 - py c * scale_y v\<rparr>"

text \<open>
  Lines 122 to 129: the event's position is stored in the first contact when the ids are
  equal, otherwise in the second when its id is equal, otherwise nowhere.
\<close>

definition store :: "pointer_event \<Rightarrow> point \<Rightarrow> touch \<Rightarrow> touch \<Rightarrow> touch \<times> touch" where
  "store e xy first second =
     (if id_t first = pointerId e then (first\<lparr>last_t := Some xy\<rparr>, second)
      else if id_t second = pointerId e then (first, second\<lparr>last_t := Some xy\<rparr>)
      else (first, second))"

text \<open>The \<^verbatim>\<open>point\<close> of \<^verbatim>\<open>move\<close>: the middle of the two contacts (lines 134 to 139).\<close>

definition midpoint :: "point \<Rightarrow> point \<Rightarrow> point" where
  "midpoint a b =
     \<lparr>px = px a + (px b - px a) / 2, py = py a + (py b - py a) / 2\<rparr>"

text \<open>
  Lines 148 to 164: the current separation \<^verbatim>\<open>dist\<close>, with \<open>0\<close> replaced by
  \<^verbatim>\<open>0.0000000001\<close>, and the scale \<^verbatim>\<open>change\<close> computed from it and from \<^verbatim>\<open>last\<close>.
\<close>

definition current_distance :: "point \<Rightarrow> point \<Rightarrow> real" where
  "current_distance a b =
     (let dist = distance a b in if dist = 0 then 1 / 10 ^ 10 else dist)"

definition change :: "pinch \<Rightarrow> viewport \<Rightarrow> real \<Rightarrow> real \<Rightarrow> real" where
  "change p v l d =
     (1 - l / d) * percent (options p) * (if isAxisX p then scale_x v else scale_y v)"

text \<open>
  The scale delta as the specification words it, for comparison with \<open>change\<close>: the
  current axis scale is that of "x if only x is active, else y".
\<close>

definition claimed_change :: "pinch \<Rightarrow> viewport \<Rightarrow> real \<Rightarrow> real \<Rightarrow> real" where
  "claimed_change p v l d =
     (1 - l / d) * percent (options p) *
     (if isAxisX p \<and> \<not> isAxisY p then scale_x v else scale_y v)"

text \<open>Lines 166 to 173: the change is added to the scale of each active axis.\<close>

definition zoom :: "pinch \<Rightarrow> real \<Rightarrow> viewport \<Rightarrow> viewport" where
  "zoom p c v =
     (let v1 = (if isAxisX p then v\<lparr>scale_x := scale_x v + c\<rparr> else v)
      in (if isAxisY p then v1\<lparr>scale_y := scale_y v1 + c\<rparr> else v1))"

text \<open>Lines 181 to 186: the \<^verbatim>\<open>clamp-zoom\<close> plugin, when registered, clamps the viewport.\<close>

definition clamp :: "scene \<Rightarrow> viewport \<Rightarrow> viewport" where
  "clamp sc v = (case clampZoom sc of Some c \<Rightarrow> c v | None \<Rightarrow> v)"

text \<open>
  Lines 187 to 201: with the \<^verbatim>\<open>center\<close> option the viewport is moved onto it; without,
  \<^verbatim>\<open>oldPoint\<close> (the middle in viewport coordinates, taken before the zoom) is converted
  back with the new transform and the viewport is shifted by the drift, with a
  \<open>moved\<close> event.
\<close>

definition anchor :: "scene \<Rightarrow> pinch \<Rightarrow> point \<Rightarrow> point \<Rightarrow> viewport \<Rightarrow> event list \<times> viewport" where
  "anchor sc p point oldPoint v =
     (case center (options p) of
        Some c \<Rightarrow> ([], moveCenter c v)
      | None \<Rightarrow>
          (let newPoint = toLocal_parent sc v oldPoint
           in ([Moved],
               v\<lparr>pos_x := pos_x v + (px point - px newPoint) * factor (options p),
                 pos_y := pos_y v + (py point - py newPoint) * factor (options p)\<rparr>)))"

text \<open>
  Lines 202 to 207: unless \<^verbatim>\<open>noDrag\<close>, and when a previous middle is recorded, the viewport
  is shifted by the movement of the middle, with a \<open>moved\<close> event.
\<close>

definition drag :: "pinch \<Rightarrow> point \<Rightarrow> viewport \<Rightarrow> event list \<times> viewport" where
  "drag p point v =
     (case lastCenter p of
        Some lc \<Rightarrow>
          (if \<not> noDrag (options p)
           then ([Moved],
                 v\<lparr>pos_x := pos_x v + (px point - px lc) * factor (options p),
                   pos_y := pos_y v + (py point - py lc) * factor (options p)\<rparr>)
           else ([], v))
      | None \<Rightarrow> ([], v))"

text \<open>
  Lines 131 to 210, the body of \<^verbatim>\<open>if (last)\<close>: \<open>a\<close> and \<open>b\<close> are \<^verbatim>\<open>first.last\<close> and
  \<^verbatim>\<open>second.last\<close> after the event was stored, \<open>l\<close> is \<^verbatim>\<open>last\<close>.
\<close>

definition commit ::
  "scene \<Rightarrow> pinch \<Rightarrow> viewport \<Rightarrow> point \<Rightarrow> point \<Rightarrow> real \<Rightarrow> event list \<times> pinch \<times> viewport" where
  "commit sc p v a b l =
     (let point = midpoint a b;
          oldPoint = toLocal_viewport sc v point;
          v2 = clamp sc (zoom p (change p v l (current_distance a b)) v);
          (ev3, v3) = anchor sc p point oldPoint v2;
          (ev4, v4) = drag p point v3
      in (Zoomed point # ev3 @ ev4, p\<lparr>lastCenter := Some point, moved := True\<rparr>, v4))"

text \<open>
  Lines 212 to 216, the branch \<^verbatim>\<open>else if (!this.pinching)\<close>, followed by
  \<^verbatim>\<open>return true\<close> of line 218.
\<close>

definition start :: "world \<Rightarrow> outcome" where
  "start w =
     (if \<not> pinching (plugin w)
      then (True, [PinchStart], w\<lparr>plugin := (plugin w)\<lparr>pinching := True\<rparr>\<rparr>)
      else (True, [], w))"

text \<open>
  \<^verbatim>\<open>move\<close>. The constant \<^verbatim>\<open>last\<close> is the separation of the two contacts before the event
  is stored, or null when one of them has no position yet; the test \<^verbatim>\<open>if (last)\<close> is
  JavaScript truthiness of a number or null, so null and \<open>0\<close> both take the else branch.
  In the branch \<^verbatim>\<open>if (last)\<close> both contacts had a position before the event, so they
  have one after it: \<open>a\<close> and \<open>b\<close> below are the values that the casts
  \<^verbatim>\<open>first.last as PointData\<close> and \<^verbatim>\<open>second.last as PointData\<close> read (lemma
  \<open>store_positions\<close>).
\<close>

definition move :: "scene \<Rightarrow> pointer_event \<Rightarrow> world \<Rightarrow> outcome" where
  "move sc e w =
     (if paused (plugin w) \<or> \<not> active (plugin w) then (False, [], w)
      else
        (let xy = toLocal_global sc (parent w) (global e)
         in (case touches w of
               first # second # rest \<Rightarrow>
                 (let (first', second') = store e xy first second;
                      w1 = w\<lparr>touches := first' # second' # rest\<rparr>
                  in (case (last_t first, last_t second) of
                        (Some a0, Some b0) \<Rightarrow>
                          (let last = distance a0 b0;
                               a = (if id_t first = pointerId e then xy else a0);
                               b = (if id_t first \<noteq> pointerId e \<and> id_t second = pointerId e
                                    then xy else b0)
                           in (if last \<noteq> 0
                               then (let (evs, p', v') = commit sc (plugin w) (parent w) a b last
                                     in (True, evs, w1\<lparr>plugin := p', parent := v'\<rparr>))
                               else start w1))
                      | _ \<Rightarrow> start w1))
             | _ \<Rightarrow> (False, [], w))))"

section \<open>Sessions: the calls and the input layer\<close>

text \<open>The constructor: the fields' initial values, with the given options.\<close>

definition Pinch :: "options \<Rightarrow> pinch" where
  "Pinch opts =
     \<lparr>options = opts, paused = False, active = False, pinching = False, moved = False,
      lastCenter = None\<rparr>"

definition initial :: "options \<Rightarrow> viewport \<Rightarrow> world" where
  "initial opts v = \<lparr>plugin = Pinch opts, parent = v, touches = []\<rparr>"

text \<open>
  Modelled from the spec: the input layer (\<^verbatim>\<open>InputManager\<close>) and the pause mechanism are
  missing. The contact list is "owned and updated by the external input layer", while
  the plugin alone "mutates \<^verbatim>\<open>lastKnownPosition\<close> for the two contacts it tracks": so the
  input layer appends a contact without a position and removes contacts, and the
  plugin can be paused and resumed, at any moment between two calls.
\<close>

datatype action =
  Down | Move pointer_event | Up | AddTouch nat | RemoveTouch nat | SetPaused bool

fun step :: "scene \<Rightarrow> action \<Rightarrow> world \<Rightarrow> event list \<times> world" where
  "step sc Down w = snd (down w)"
| "step sc (Move e) w = snd (move sc e w)"
| "step sc Up w = snd (up w)"
| "step sc (AddTouch i) w = ([], w\<lparr>touches := touches w @ [\<lparr>id_t = i, last_t = None\<rparr>]\<rparr>)"
| "step sc (RemoveTouch i) w = ([], w\<lparr>touches := filter (\<lambda>t. id_t t \<noteq> i) (touches w)\<rparr>)"
| "step sc (SetPaused b) w = ([], w\<lparr>plugin := (plugin w)\<lparr>paused := b\<rparr>\<rparr>)"

text \<open>A sequence of calls, with all the events emitted, in order.\<close>

fun run :: "scene \<Rightarrow> action list \<Rightarrow> world \<Rightarrow> event list \<times> world" where
  "run sc [] w = ([], w)"
| "run sc (a # as) w =
     (let (evs, w1) = step sc a w; (evs', w2) = run sc as w1 in (evs @ evs', w2))"

text \<open>
  A scene to evaluate the model on: the viewport is a child of an untransformed stage and
  its own transform is its scale and its position; no \<^verbatim>\<open>clamp-zoom\<close> plugin.
\<close>

definition stage :: scene where
  "stage =
     \<lparr>toLocal_global = (\<lambda>v p. p),
      toLocal_viewport =
        (\<lambda>v p. \<lparr>px = (px p - pos_x v) / scale_x v, py = (py p - pos_y v) / scale_y v\<rparr>),
      toLocal_parent =
        (\<lambda>v p. \<lparr>px = px p * scale_x v + pos_x v, py = py p * scale_y v + pos_y v\<rparr>),
      clampZoom = None\<rparr>"

definition unit_viewport :: viewport where
  "unit_viewport =
     \<lparr>scale_x = 1, scale_y = 1, pos_x = 0, pos_y = 0, screenWidth = 800, screenHeight = 600\<rparr>"

text \<open>Concrete inputs: a point, a pointer event, and contacts with and without a position.\<close>

definition pt :: "real \<Rightarrow> real \<Rightarrow> point" where
  "pt x y = \<lparr>px = x, py = y\<rparr>"

definition pointer :: "nat \<Rightarrow> real \<Rightarrow> real \<Rightarrow> pointer_event" where
  "pointer i x y = \<lparr>pointerId = i, global = pt x y\<rparr>"

definition touch_new :: "nat \<Rightarrow> touch" where
  "touch_new i = \<lparr>id_t = i, last_t = None\<rparr>"

definition touch_at :: "nat \<Rightarrow> real \<Rightarrow> real \<Rightarrow> touch" where
  "touch_at i x y = \<lparr>id_t = i, last_t = Some (pt x y)\<rparr>"

text \<open>A world in the middle of a pinch: active and pinching, with the given contacts.\<close>

definition pinching_world :: "options \<Rightarrow> point option \<Rightarrow> viewport \<Rightarrow> touch list \<Rightarrow> world" where
  "pinching_world opts lc v ts =
     \<lparr>plugin = (Pinch opts)\<lparr>active := True, pinching := True, lastCenter := lc\<rparr>,
      parent = v, touches = ts\<rparr>"

text \<open>A world after \<^verbatim>\<open>down\<close> with two contacts: active, not yet pinching.\<close>

definition armed_world :: "options \<Rightarrow> viewport \<Rightarrow> touch list \<Rightarrow> world" where
  "armed_world opts v ts =
     \<lparr>plugin = (Pinch opts)\<lparr>active := True\<rparr>, parent = v, touches = ts\<rparr>"

lemmas concrete_defs =
  pt_def pointer_def touch_new_def touch_at_def pinching_world_def armed_world_def
  Pinch_def initial_def DEFAULT_PINCH_OPTIONS_def unit_viewport_def stage_def

lemmas op_defs =
  down_def up_def count_def move_def store_def start_def commit_def midpoint_def
  current_distance_def change_def zoom_def clamp_def anchor_def drag_def isAxisX_def
  isAxisY_def moveCenter_def Let_def

text \<open>
  A pinch in progress on a viewport whose two scales differ, with the contacts at
  \<open>(0, 0)\<close> and \<open>(1, 0)\<close>.
\<close>

definition stretched_viewport :: viewport where
  "stretched_viewport = unit_viewport\<lparr>scale_x := 2, scale_y := 3\<rparr>"

definition stretched_world :: world where
  "stretched_world =
     snd (run stage [AddTouch 1, AddTouch 2, Down, Move (pointer 1 0 0), Move (pointer 2 1 0)]
            (initial DEFAULT_PINCH_OPTIONS stretched_viewport))"

text \<open>Two contacts are down and \<^verbatim>\<open>down\<close> was called; no contact has a position yet.\<close>

definition two_fingers_down :: world where
  "two_fingers_down =
     snd (run stage [AddTouch 1, AddTouch 2, Down] (initial DEFAULT_PINCH_OPTIONS unit_viewport))"

text \<open>Both contacts have reported the same position \<open>(5, 5)\<close>.\<close>

definition coincident_world :: world where
  "coincident_world =
     snd (run stage [AddTouch 1, AddTouch 2, Down, Move (pointer 1 5 5), Move (pointer 2 5 5)]
            (initial DEFAULT_PINCH_OPTIONS unit_viewport))"

text \<open>Both contacts have reported a position, \<open>(0, 0)\<close> and \<open>(4, 0)\<close>; no step was committed yet.\<close>

definition separated_world :: "options \<Rightarrow> world" where
  "separated_world opts =
     snd (run stage [AddTouch 1, AddTouch 2, Down, Move (pointer 1 0 0), Move (pointer 2 4 0)]
            (initial opts unit_viewport))"

text \<open>
  The invariant of a session: besides the two properties of the flags, a recognizer that
  is not pinching sees at most one contact with a position, because only \<open>move\<close> stores
  positions and it sets \<open>pinching\<close> when it first runs on two contacts.
\<close>

definition session_inv :: "world \<Rightarrow> bool" where
  "session_inv w =
     ((pinching (plugin w) \<longrightarrow> active (plugin w)) \<and>
      (lastCenter (plugin w) \<noteq> None \<longrightarrow> pinching (plugin w)) \<and>
      (\<not> pinching (plugin w) \<longrightarrow> length (filter (\<lambda>t. last_t t \<noteq> None) (touches w)) \<le> 1))"

text \<open>
  A session up to its first committed step: the contacts go from \<open>(0, 0)\<close> and \<open>(4, 0)\<close>
  to \<open>(0, 0)\<close> and \<open>(6, 0)\<close>.
\<close>

definition committed_world :: "options \<Rightarrow> world" where
  "committed_world opts =
     snd (run stage
            [AddTouch 1, AddTouch 2, Down, Move (pointer 1 0 0), Move (pointer 2 4 0),
             Move (pointer 2 6 0)]
            (initial opts unit_viewport))"

text \<open>The number of sessions that have started and not ended: one while pinching.\<close>

definition open_sessions :: "world \<Rightarrow> nat" where
  "open_sessions w = (if pinching (plugin w) then 1 else 0)"

text \<open>The options with the \<^verbatim>\<open>center\<close> option set to the point \<open>(0, 0)\<close>.\<close>

definition fixed_center_options :: options where
  "fixed_center_options = DEFAULT_PINCH_OPTIONS\<lparr>center := Some (pt 0 0)\<rparr>"


section \<open>Basic facts about the operations\<close>

lemma distance_horizontal: "py a = py b \<Longrightarrow> distance a b = \<bar>px b - px a\<bar>"
  by (simp add: distance_def)

lemma distance_same [simp]: "distance a a = 0"
  by (simp add: distance_def)


lemma current_distance_nonzero: "distance a b \<noteq> 0 \<Longrightarrow> current_distance a b = distance a b"
  by (simp add: current_distance_def)

lemma store_positions:
  assumes "last_t first = Some a0" "last_t second = Some b0"
    and "store e xy first second = (first', second')"
  shows "last_t first' = Some (if id_t first = pointerId e then xy else a0)"
    and "last_t second' =
           Some (if id_t first \<noteq> pointerId e \<and> id_t second = pointerId e then xy else b0)"
  using assms by (auto simp: store_def split: if_splits)

lemma store_unmatched:
  "id_t first \<noteq> pointerId e \<Longrightarrow> id_t second \<noteq> pointerId e \<Longrightarrow>
   store e xy first second = (first, second)"
  by (simp add: store_def)

lemma move_gate: "paused (plugin w) \<or> \<not> active (plugin w) \<Longrightarrow> move sc e w = (False, [], w)"
  by (simp add: move_def)

lemma move_few: "length (touches w) < 2 \<Longrightarrow> move sc e w = (False, [], w)"
  by (cases "touches w" rule: list.exhaust; simp add: move_def split: list.splits)

lemma move_start:
  assumes "\<not> paused (plugin w)" "active (plugin w)" "touches w = first # second # rest"
    and "store e (toLocal_global sc (parent w) (global e)) first second = (first', second')"
    and "last_t first = None \<or> last_t second = None \<or>
         (\<exists>a0 b0. last_t first = Some a0 \<and> last_t second = Some b0 \<and> distance a0 b0 = 0)"
  shows "move sc e w = start (w\<lparr>touches := first' # second' # rest\<rparr>)"
  using assms by (auto simp: move_def Let_def split: option.splits)

lemma move_commit:
  assumes "\<not> paused (plugin w)" "active (plugin w)" "touches w = first # second # rest"
    and "store e (toLocal_global sc (parent w) (global e)) first second = (first', second')"
    and "last_t first = Some a0" "last_t second = Some b0" "distance a0 b0 \<noteq> 0"
    and "last_t first' = Some a" "last_t second' = Some b"
    and "commit sc (plugin w) (parent w) a b (distance a0 b0) = (evs, p', v')"
  shows "move sc e w = (True, evs, w\<lparr>touches := first' # second' # rest, plugin := p', parent := v'\<rparr>)"
proof -
  from store_positions [OF assms(5,6,4)] assms(8,9)
  have "a = (if id_t first = pointerId e then toLocal_global sc (parent w) (global e) else a0)"
    and "b = (if id_t first \<noteq> pointerId e \<and> id_t second = pointerId e
              then toLocal_global sc (parent w) (global e) else b0)"
    by simp_all
  with assms show ?thesis
    by (simp add: move_def Let_def)
qed

lemma zoom_fields:
  "scale_x (zoom p c v) = scale_x v + (if isAxisX p then c else 0)"
  "scale_y (zoom p c v) = scale_y v + (if isAxisY p then c else 0)"
  "pos_x (zoom p c v) = pos_x v" "pos_y (zoom p c v) = pos_y v"
  "screenWidth (zoom p c v) = screenWidth v" "screenHeight (zoom p c v) = screenHeight v"
  by (simp_all add: zoom_def Let_def)

lemma anchor_scale:
  "scale_x (snd (anchor sc p m old v)) = scale_x v" "scale_y (snd (anchor sc p m old v)) = scale_y v"
  by (simp_all add: anchor_def moveCenter_def Let_def split: option.splits)

lemma drag_scale:
  "scale_x (snd (drag p m v)) = scale_x v" "scale_y (snd (drag p m v)) = scale_y v"
  by (simp_all add: drag_def split: option.splits)

lemma commit_scale:
  assumes "commit sc p v a b l = (evs, p', v')"
  shows "scale_x v' = scale_x (clamp sc (zoom p (change p v l (current_distance a b)) v))"
    and "scale_y v' = scale_y (clamp sc (zoom p (change p v l (current_distance a b)) v))"
  using assms anchor_scale drag_scale
  by (auto simp: commit_def Let_def split: prod.splits) (metis snd_conv)+

lemma stretched_world_eq:
  "stretched_world =
     pinching_world DEFAULT_PINCH_OPTIONS None stretched_viewport [touch_at 1 0 0, touch_at 2 1 0]"
  by (simp add: stretched_world_def stretched_viewport_def concrete_defs op_defs)

lemma two_fingers_down_eq:
  "two_fingers_down = armed_world DEFAULT_PINCH_OPTIONS unit_viewport [touch_new 1, touch_new 2]"
  by (simp add: two_fingers_down_def concrete_defs op_defs)

lemma coincident_world_eq:
  "coincident_world =
     pinching_world DEFAULT_PINCH_OPTIONS None unit_viewport [touch_at 1 5 5, touch_at 2 5 5]"
  by (simp add: coincident_world_def concrete_defs op_defs)

lemma separated_world_eq:
  "separated_world opts = pinching_world opts None unit_viewport [touch_at 1 0 0, touch_at 2 4 0]"
  by (simp add: separated_world_def concrete_defs op_defs)

lemma start_fields:
  "fst (start w) = True" "parent (snd (snd (start w))) = parent w"
  "touches (snd (snd (start w))) = touches w"
  by (simp_all add: start_def)

lemma commit_unmoved_scale:
  assumes "clampZoom sc = None" "distance a b \<noteq> 0"
    and "commit sc p v a b (distance a b) = (evs, p', v')"
  shows "scale_x v' = scale_x v \<and> scale_y v' = scale_y v"
proof -
  have "change p v (distance a b) (current_distance a b) = 0"
    using assms(2) by (simp add: change_def current_distance_nonzero)
  with commit_scale [OF assms(3)] assms(1) show ?thesis
    by (simp add: clamp_def zoom_fields)
qed

lemma commit_plugin:
  assumes "commit sc p v a b l = (evs, p', v')"
  shows "p' = p\<lparr>lastCenter := Some (midpoint a b), moved := True\<rparr>"
  using assms by (auto simp: commit_def Let_def split: prod.splits)

lemma commit_events:
  assumes "commit sc p v a b l = (evs, p', v')"
  shows "PinchStart \<notin> set evs" and "PinchEnd \<notin> set evs" and "Zoomed (midpoint a b) \<in> set evs"
  using assms
  by (auto simp: commit_def anchor_def drag_def Let_def split: prod.splits option.splits if_splits)

text \<open>The three ways a call of move can go.\<close>

lemma move_cases:
  obtains (skip) "move sc e w = (False, [], w)"
      and "paused (plugin w) \<or> \<not> active (plugin w) \<or> length (touches w) < 2"
  | (start) first second rest first' second' where
      "\<not> paused (plugin w)" "active (plugin w)" "touches w = first # second # rest"
      "store e (toLocal_global sc (parent w) (global e)) first second = (first', second')"
      "last_t first = None \<or> last_t second = None \<or>
         (\<exists>a0 b0. last_t first = Some a0 \<and> last_t second = Some b0 \<and> distance a0 b0 = 0)"
      "move sc e w = start (w\<lparr>touches := first' # second' # rest\<rparr>)"
  | (commit) first second rest first' second' a0 b0 a b evs p' v' where
      "\<not> paused (plugin w)" "active (plugin w)" "touches w = first # second # rest"
      "store e (toLocal_global sc (parent w) (global e)) first second = (first', second')"
      "last_t first = Some a0" "last_t second = Some b0" "distance a0 b0 \<noteq> 0"
      "last_t first' = Some a" "last_t second' = Some b"
      "commit sc (plugin w) (parent w) a b (distance a0 b0) = (evs, p', v')"
      "move sc e w =
         (True, evs, w\<lparr>touches := first' # second' # rest, plugin := p', parent := v'\<rparr>)"
proof (cases "paused (plugin w) \<or> \<not> active (plugin w) \<or> length (touches w) < 2")
  case True
  then have mv: "move sc e w = (False, [], w)"
    using move_gate move_few by blast
  from mv True show ?thesis by (rule skip)
next
  case False
  then have g: "\<not> paused (plugin w)" "active (plugin w)" and "2 \<le> length (touches w)"
    by simp_all
  then obtain first second rest where t: "touches w = first # second # rest"
    by (cases "touches w"; simp; cases "tl (touches w)"; simp)
  obtain first' second' where
    st: "store e (toLocal_global sc (parent w) (global e)) first second = (first', second')"
    by (cases "store e (toLocal_global sc (parent w) (global e)) first second") auto
  show ?thesis
  proof (cases "\<exists>a0 b0. last_t first = Some a0 \<and> last_t second = Some b0 \<and> distance a0 b0 \<noteq> 0")
    case True
    then obtain a0 b0 where
      p: "last_t first = Some a0" "last_t second = Some b0" "distance a0 b0 \<noteq> 0"
      by blast
    from store_positions [OF p(1,2) st] obtain a b where
      ab: "last_t first' = Some a" "last_t second' = Some b"
      by blast
    obtain evs p' v' where
      cm: "commit sc (plugin w) (parent w) a b (distance a0 b0) = (evs, p', v')"
      by (cases "commit sc (plugin w) (parent w) a b (distance a0 b0)") auto
    from g t st p ab cm have "move sc e w =
        (True, evs, w\<lparr>touches := first' # second' # rest, plugin := p', parent := v'\<rparr>)"
      by (rule move_commit)
    with g t st p ab cm show ?thesis by (rule commit)
  next
    case False
    then have n: "last_t first = None \<or> last_t second = None \<or>
      (\<exists>a0 b0. last_t first = Some a0 \<and> last_t second = Some b0 \<and> distance a0 b0 = 0)"
      by (cases "last_t first"; cases "last_t second") auto
    with g t st have "move sc e w = start (w\<lparr>touches := first' # second' # rest\<rparr>)"
      by (rule move_start)
    with g t st n show ?thesis by (rule start)
  qed
qed

lemma move_inv:
  assumes "session_inv w"
  shows "session_inv (snd (snd (move sc e w)))"
proof (cases sc e w rule: move_cases)
  case skip
  with assms show ?thesis by simp
next
  case (start first second rest first' second')
  with assms show ?thesis
    by (simp add: session_inv_def start_def)
next
  case (commit first second rest first' second' a0 b0 a b evs p' v')
  from commit(3,5,6) have "2 \<le> length (filter (\<lambda>t. last_t t \<noteq> None) (touches w))"
    by simp
  with assms have "pinching (plugin w)"
    by (auto simp: session_inv_def)
  with commit(2,11) commit_plugin [OF commit(10)] show ?thesis
    by (simp add: session_inv_def)
qed

lemma filter_filter_le: "length (filter P (filter Q xs)) \<le> length (filter P xs)"
  by (induction xs) (auto simp: le_SucI)

lemma step_inv:
  assumes "session_inv w"
  shows "session_inv (snd (step sc a w))"
proof (cases a)
  case Down
  with assms show ?thesis by (auto simp: session_inv_def down_def)
next
  case (Move e)
  with move_inv [OF assms] show ?thesis by simp
next
  case Up
  have "length (touches w) \<le> 1 \<Longrightarrow>
        length (filter (\<lambda>t. last_t t \<noteq> None) (touches w)) \<le> 1"
    using length_filter_le [of "\<lambda>t. last_t t \<noteq> None" "touches w"] by linarith
  with assms Up show ?thesis by (auto simp: session_inv_def up_def)
next
  case (AddTouch i)
  with assms show ?thesis by (auto simp: session_inv_def)
next
  case (RemoveTouch i)
  from filter_filter_le [of "\<lambda>t. last_t t \<noteq> None" "\<lambda>t. id_t t \<noteq> i" "touches w"]
    assms RemoveTouch
  show ?thesis by (auto simp: session_inv_def)
next
  case (SetPaused b)
  with assms show ?thesis by (auto simp: session_inv_def)
qed

lemma run_inv: "session_inv w \<Longrightarrow> session_inv (snd (run sc acts w))"
proof (induction acts arbitrary: w)
  case Nil
  then show ?case by simp
next
  case (Cons a acts)
  from Cons.prems have "session_inv (snd (step sc a w))" by (rule step_inv)
  then have "session_inv (snd (run sc acts (snd (step sc a w))))" by (rule Cons.IH)
  then show ?case by (simp add: split_beta)
qed

lemma initial_inv: "session_inv (initial opts v)"
  by (simp add: session_inv_def initial_def Pinch_def)

lemma move_balance:
  "count_list (fst (snd (move sc e w))) PinchStart + open_sessions w =
   count_list (fst (snd (move sc e w))) PinchEnd + open_sessions (snd (snd (move sc e w)))"
proof (cases sc e w rule: move_cases)
  case skip
  then show ?thesis by simp
next
  case (start first second rest first' second')
  then show ?thesis by (simp add: start_def open_sessions_def)
next
  case (commit first second rest first' second' a0 b0 a b evs p' v')
  from commit_events(1,2) [OF commit(10)]
  have "count_list evs PinchStart = 0" "count_list evs PinchEnd = 0"
    by (simp_all add: count_list_0_iff)
  with commit(11) commit_plugin [OF commit(10)] show ?thesis
    by (simp add: open_sessions_def)
qed

lemma step_balance:
  "count_list (fst (step sc a w)) PinchStart + open_sessions w =
   count_list (fst (step sc a w)) PinchEnd + open_sessions (snd (step sc a w))"
proof (cases a)
  case (Move e)
  with move_balance [of sc e w] show ?thesis by simp
qed (simp_all add: down_def up_def open_sessions_def)

lemma run_balance:
  "count_list (fst (run sc acts w)) PinchStart + open_sessions w =
   count_list (fst (run sc acts w)) PinchEnd + open_sessions (snd (run sc acts w))"
proof (induction acts arbitrary: w)
  case Nil
  then show ?case by simp
next
  case (Cons a acts)
  from step_balance [of sc a w] Cons.IH [of "snd (step sc a w)"]
  show ?case by (simp add: split_beta)
qed

lemma move_emits_start:
  "PinchStart \<in> set (fst (snd (move sc e w))) \<longleftrightarrow>
     \<not> paused (plugin w) \<and> active (plugin w) \<and> \<not> pinching (plugin w) \<and>
     2 \<le> length (touches w) \<and>
     \<not> (\<exists>a0 b0. last_t (touches w ! 0) = Some a0 \<and> last_t (touches w ! 1) = Some b0 \<and>
                distance a0 b0 \<noteq> 0)"
proof (cases sc e w rule: move_cases)
  case skip
  then show ?thesis by auto
next
  case (start first second rest first' second')
  then show ?thesis by (auto simp: start_def)
next
  case (commit first second rest first' second' a0 b0 a b evs p' v')
  with commit_events(1) [OF commit(10)] show ?thesis by simp
qed

lemma move_start_sets_pinching:
  "PinchStart \<in> set (fst (snd (move sc e w))) \<Longrightarrow> pinching (plugin (snd (snd (move sc e w))))"
proof (cases sc e w rule: move_cases)
  case skip
  then show "PinchStart \<in> set (fst (snd (move sc e w))) \<Longrightarrow> ?thesis" by simp
next
  case (start first second rest first' second')
  then show ?thesis by (simp add: start_def)
next
  case (commit first second rest first' second' a0 b0 a b evs p' v')
  with commit_events(1) [OF commit(10)]
  show "PinchStart \<in> set (fst (snd (move sc e w))) \<Longrightarrow> ?thesis" by simp
qed

lemma committed_world_fixed_eq:
  "committed_world fixed_center_options =
     \<lparr>plugin = (Pinch fixed_center_options)
        \<lparr>active := True, pinching := True, moved := True, lastCenter := Some (pt 3 0)\<rparr>,
      parent = unit_viewport\<lparr>scale_x := 4 / 3, scale_y := 4 / 3, pos_x := 400, pos_y := 300\<rparr>,
      touches = [touch_at 1 0 0, touch_at 2 6 0]\<rparr>"
  by (simp add: committed_world_def fixed_center_options_def concrete_defs op_defs
      distance_horizontal)

lemma centered_moveCenter: "centered c (moveCenter c v)"
  by (simp add: centered_def moveCenter_def)

lemma commit_center:
  assumes "center (options p) = Some c" and "commit sc p v a b l = (evs, p', v')"
  shows "v' = snd (drag p (midpoint a b)
                 (moveCenter c (clamp sc (zoom p (change p v l (current_distance a b)) v))))"
  using assms by (auto simp: commit_def anchor_def Let_def split: prod.splits)

lemma drag_none: "noDrag (options p) \<or> lastCenter p = None \<Longrightarrow> snd (drag p m v) = v"
  by (auto simp: drag_def split: option.splits)

lemma drag_some:
  "\<not> noDrag (options p) \<Longrightarrow> lastCenter p = Some lc \<Longrightarrow>
   snd (drag p m v) =
     v\<lparr>pos_x := pos_x v + (px m - px lc) * factor (options p),
       pos_y := pos_y v + (py m - py lc) * factor (options p)\<rparr>"
  by (simp add: drag_def)

section \<open>Termination of a gesture: \<open>up\<close>\<close>

text \<open>
  C7. For every call to \<open>up\<close>: if \<open>pinching\<close> is true and at most one contact remains,
  then \<open>active\<close>, \<open>pinching\<close> and \<open>moved\<close> become false, \<open>lastCenter\<close> becomes null,
  \<open>pinch-end\<close> is emitted and the call returns true; in every other case the call returns
  false, emits nothing and leaves the state unchanged.
\<close>

theorem up_resets_or_ignores:
  "(pinching (plugin w) \<and> length (touches w) \<le> 1 \<longrightarrow>
      (\<exists>w'. up w = (True, [PinchEnd], w') \<and>
         \<not> active (plugin w') \<and> \<not> pinching (plugin w') \<and> \<not> moved (plugin w') \<and>
         lastCenter (plugin w') = None \<and>
         options (plugin w') = options (plugin w) \<and> paused (plugin w') = paused (plugin w) \<and>
         parent w' = parent w \<and> touches w' = touches w)) \<and>
   (\<not> (pinching (plugin w) \<and> length (touches w) \<le> 1) \<longrightarrow> up w = (False, [], w))"
  by (simp add: up_def)

theorem up_resets_or_ignores_witness:
  "fst (up (pinching_world DEFAULT_PINCH_OPTIONS (Some (pt 2 0)) unit_viewport [touch_at 2 4 0])) \<and>
   lastCenter (plugin (snd (snd
     (up (pinching_world DEFAULT_PINCH_OPTIONS (Some (pt 2 0)) unit_viewport [touch_at 2 4 0]))))) = None \<and>
   up (pinching_world DEFAULT_PINCH_OPTIONS None unit_viewport [touch_at 1 0 0, touch_at 2 4 0]) =
     (False, [], pinching_world DEFAULT_PINCH_OPTIONS None unit_viewport [touch_at 1 0 0, touch_at 2 4 0])"
proof -
  let ?w1 = "pinching_world DEFAULT_PINCH_OPTIONS (Some (pt 2 0)) unit_viewport [touch_at 2 4 0]"
  let ?w2 = "pinching_world DEFAULT_PINCH_OPTIONS None unit_viewport [touch_at 1 0 0, touch_at 2 4 0]"
  have h1: "pinching (plugin ?w1) \<and> length (touches ?w1) \<le> 1"
    by (simp add: concrete_defs)
  have h2: "\<not> (pinching (plugin ?w2) \<and> length (touches ?w2) \<le> 1)"
    by (simp add: concrete_defs)
  from up_resets_or_ignores [of ?w1] h1 obtain w' where
    "up ?w1 = (True, [PinchEnd], w')" and "lastCenter (plugin w') = None"
    by blast
  moreover from up_resets_or_ignores [of ?w2] h2 have "up ?w2 = (False, [], ?w2)"
    by blast
  ultimately show ?thesis by simp
qed

section \<open>Activation: \<open>down\<close>\<close>

text \<open>
  C8. For every call to \<open>down\<close>: it returns true exactly when at least two contacts are
  active at call time, and then \<open>active\<close> is set and nothing else changes; with no or one
  contact it returns false and the state is unchanged. No event is emitted.
\<close>

theorem down_gate:
  "(fst (down w) \<longleftrightarrow> count w \<ge> 2) \<and>
   (count w \<ge> 2 \<longrightarrow>
      active (plugin (snd (snd (down w)))) \<and>
      down w = (True, [], w\<lparr>plugin := (plugin w)\<lparr>active := True\<rparr>\<rparr>)) \<and>
   (count w < 2 \<longrightarrow> down w = (False, [], w))"
  by (simp add: down_def)

theorem down_gate_witness:
  "fst (down (snd (run stage [AddTouch 1, AddTouch 2] (initial DEFAULT_PINCH_OPTIONS unit_viewport)))) \<and>
   active (plugin (snd (snd (down (snd
     (run stage [AddTouch 1, AddTouch 2] (initial DEFAULT_PINCH_OPTIONS unit_viewport))))))) \<and>
   down (snd (run stage [AddTouch 1] (initial DEFAULT_PINCH_OPTIONS unit_viewport))) =
     (False, [], snd (run stage [AddTouch 1] (initial DEFAULT_PINCH_OPTIONS unit_viewport)))"
proof -
  let ?w2 = "snd (run stage [AddTouch 1, AddTouch 2] (initial DEFAULT_PINCH_OPTIONS unit_viewport))"
  let ?w1 = "snd (run stage [AddTouch 1] (initial DEFAULT_PINCH_OPTIONS unit_viewport))"
  have h2: "count ?w2 \<ge> 2" by (simp add: count_def initial_def)
  have h1: "count ?w1 < 2" by (simp add: count_def initial_def)
  from down_gate [of ?w2] h2 have "fst (down ?w2) \<and> active (plugin (snd (snd (down ?w2))))"
    by blast
  moreover from down_gate [of ?w1] h1 have "down ?w1 = (False, [], ?w1)"
    by blast
  ultimately show ?thesis by simp
qed

section \<open>The scale change of a committed step\<close>

text \<open>
  C1 (as amended). For every \<open>move\<close> call that commits a transform update (not paused,
  active, two tracked contacts that both had a position before the event, at a non-zero
  distance), the quantity added to the scale of each active axis is
  \<open>(1 - previousDistance / currentDistance) * percent * currentAxisScale\<close>, where
  \<open>previousDistance\<close> is the distance of the contacts' positions before the event is
  stored, \<open>currentDistance\<close> the distance after (\<open>0\<close> replaced by the epsilon), and
  \<open>currentAxisScale\<close> is the x scale whenever the x axis is active (axis \<open>all\<close> or \<open>x\<close>)
  and the y scale otherwise. The scale of an inactive axis is not changed. The
  \<^verbatim>\<open>clamp-zoom\<close> plugin, when registered, then acts on the result, and nothing after
  it writes the scale.
\<close>

theorem move_scale_change:
  assumes "\<not> paused (plugin w)" and "active (plugin w)"
    and "touches w = first # second # rest"
    and "last_t first = Some a0" and "last_t second = Some b0" and "distance a0 b0 \<noteq> 0"
    and "store e (toLocal_global sc (parent w) (global e)) first second = (first', second')"
    and "last_t first' = Some a" and "last_t second' = Some b"
    and "c = (1 - distance a0 b0 / current_distance a b) * percent (options (plugin w)) *
             (if isAxisX (plugin w) then scale_x (parent w) else scale_y (parent w))"
    and "vz = (parent w)
           \<lparr>scale_x := scale_x (parent w) + (if isAxisX (plugin w) then c else 0),
            scale_y := scale_y (parent w) + (if isAxisY (plugin w) then c else 0)\<rparr>"
  shows "scale_x (parent (snd (snd (move sc e w)))) = scale_x (clamp sc vz) \<and>
         scale_y (parent (snd (snd (move sc e w)))) = scale_y (clamp sc vz)"
proof -
  obtain evs p' v' where
    cm: "commit sc (plugin w) (parent w) a b (distance a0 b0) = (evs, p', v')"
    by (cases "commit sc (plugin w) (parent w) a b (distance a0 b0)") auto
  have mv: "move sc e w =
      (True, evs, w\<lparr>touches := first' # second' # rest, plugin := p', parent := v'\<rparr>)"
    using assms(1-3) assms(7) assms(4-6) assms(8,9) cm by (rule move_commit)
  have z: "zoom (plugin w) (change (plugin w) (parent w) (distance a0 b0) (current_distance a b))
             (parent w) = vz"
    using assms(10,11) by (simp add: zoom_def change_def Let_def)
  from commit_scale [OF cm] z mv show ?thesis by simp
qed

theorem move_scale_change_witness:
  "scale_x (parent (snd (snd (move stage (pointer 2 2 0) stretched_world)))) = 3 \<and>
   scale_y (parent (snd (snd (move stage (pointer 2 2 0) stretched_world)))) = 4"
proof -
  let ?w = stretched_world
  let ?e = "pointer 2 2 0"
  have w: "?w = pinching_world DEFAULT_PINCH_OPTIONS None stretched_viewport [touch_at 1 0 0, touch_at 2 1 0]"
    by (rule stretched_world_eq)
  have h1: "\<not> paused (plugin ?w)" and h2: "active (plugin ?w)"
    and h3: "touches ?w = touch_at 1 0 0 # touch_at 2 1 0 # []"
    by (simp_all add: w concrete_defs)
  have h4: "last_t (touch_at 1 0 0) = Some (pt 0 0)" and h5: "last_t (touch_at 2 1 0) = Some (pt 1 0)"
    and h8: "last_t (touch_at 2 2 0) = Some (pt 2 0)"
    by (simp_all add: concrete_defs)
  have h6: "distance (pt 0 0) (pt 1 0) \<noteq> 0"
    by (simp add: distance_horizontal pt_def)
  have h7: "store ?e (toLocal_global stage (parent ?w) (global ?e)) (touch_at 1 0 0) (touch_at 2 1 0)
              = (touch_at 1 0 0, touch_at 2 2 0)"
    by (simp add: store_def concrete_defs)
  have c: "(1 - distance (pt 0 0) (pt 1 0) / current_distance (pt 0 0) (pt 2 0)) *
             percent (options (plugin ?w)) * 2 = 1"
    by (simp add: w stretched_viewport_def concrete_defs op_defs distance_horizontal)
  have x: "isAxisX (plugin ?w)" and y: "isAxisY (plugin ?w)"
    by (simp_all add: w concrete_defs isAxisX_def isAxisY_def)
  have s: "scale_x (parent ?w) = 2" "scale_y (parent ?w) = 3"
    by (simp_all add: w stretched_viewport_def concrete_defs)
  have k: "clamp stage v = v" for v
    by (simp add: clamp_def stage_def)
  from move_scale_change [OF h1 h2 h3 h4 h5 h6 h7 h4 h8 refl refl]
  show ?thesis
    by (simp add: c x y s k)
qed

text \<open>
  C1 as stated takes the y scale for the axis option \<open>all\<close> ("x if only x is active,
  else y"). On a viewport of scale \<open>(2, 3)\<close> with the contacts going from distance \<open>1\<close>
  to distance \<open>2\<close>, the code adds \<open>(1 - 1/2) * 1 * 2 = 1\<close> to the x scale, which becomes
  \<open>3\<close>; the stated formula gives \<open>2 + (1 - 1/2) * 1 * 3 = 7/2\<close>.
\<close>

theorem claimed_change_counterexample:
  "scale_x (parent (snd (snd (move stage (pointer 2 2 0) stretched_world)))) = 3 \<and>
   scale_x (parent stretched_world) +
     claimed_change (plugin stretched_world) (parent stretched_world)
       (distance (pt 0 0) (pt 1 0)) (current_distance (pt 0 0) (pt 2 0)) = 7 / 2"
  by (simp add: stretched_world_eq stretched_viewport_def claimed_change_def concrete_defs op_defs
      distance_horizontal)

section \<open>Steps that do not commit\<close>

text \<open>
  C4 (as amended). Every \<open>move\<close> call made while active with two tracked contacts, where
  at least one of the two contacts had no position before the call, leaves the viewport
  (scale and position) unchanged and returns true; it returns false only when the plugin
  is paused.
\<close>

theorem move_without_both_positions:
  assumes "active (plugin w)" and "touches w = first # second # rest"
    and "last_t first = None \<or> last_t second = None"
  shows "fst (move sc e w) = (\<not> paused (plugin w)) \<and>
         parent (snd (snd (move sc e w))) = parent w"
proof (cases "paused (plugin w)")
  case True
  then show ?thesis by (simp add: move_gate)
next
  case False
  obtain first' second' where
    st: "store e (toLocal_global sc (parent w) (global e)) first second = (first', second')"
    by (cases "store e (toLocal_global sc (parent w) (global e)) first second") auto
  from assms(3) have "last_t first = None \<or> last_t second = None \<or>
      (\<exists>a0 b0. last_t first = Some a0 \<and> last_t second = Some b0 \<and> distance a0 b0 = 0)"
    by blast
  with False assms(1,2) st
  have "move sc e w = start (w\<lparr>touches := first' # second' # rest\<rparr>)"
    by (rule move_start)
  with False show ?thesis by (simp add: start_fields)
qed

theorem move_without_both_positions_witness:
  "fst (move stage (pointer 1 0 0) two_fingers_down) \<and>
   parent (snd (snd (move stage (pointer 1 0 0) two_fingers_down))) = unit_viewport"
proof -
  have h1: "active (plugin two_fingers_down)"
    and h2: "touches two_fingers_down = touch_new 1 # touch_new 2 # []"
    and h3: "last_t (touch_new 1) = None \<or> last_t (touch_new 2) = None"
    and h4: "\<not> paused (plugin two_fingers_down)" and h5: "parent two_fingers_down = unit_viewport"
    by (simp_all add: two_fingers_down_eq armed_world_def Pinch_def touch_new_def)
  from move_without_both_positions [OF h1 h2 h3, of stage "pointer 1 0 0"] h4 h5
  show ?thesis by simp
qed

text \<open>
  C4 as stated says that such a call returns false. After \<^verbatim>\<open>down\<close> with two contacts that
  have no position, the first \<open>move\<close> returns true (line 218).
\<close>

theorem first_move_returns_true:
  "last_t (touches two_fingers_down ! 1) = None \<and>
   fst (move stage (pointer 1 0 0) two_fingers_down) = True"
  by (simp add: two_fingers_down_eq concrete_defs op_defs)

text \<open>
  C5. A \<open>move\<close> call made while active with two tracked contacts whose previous distance
  is known commits a transform update, also when that distance is \<open>0\<close>. The code does not:
  with both contacts at \<open>(5, 5)\<close>, the previous distance is \<open>0\<close>, the test
  \<^verbatim>\<open>if (last)\<close> fails as it does for null, and the call stores the new position, emits
  nothing and leaves the scale as it was. A committed step would have added
  \<open>(1 - 0 / 5) * 1 * 1 = 1\<close> to both scales and emitted \<open>zoomed\<close>.
\<close>

theorem zero_previous_distance_skipped:
  "touches coincident_world = [touch_at 1 5 5, touch_at 2 5 5] \<and>
   distance (pt 5 5) (pt 5 5) = 0 \<and>
   move stage (pointer 1 10 5) coincident_world =
     (True, [], coincident_world\<lparr>touches := [touch_at 1 10 5, touch_at 2 5 5]\<rparr>)"
  by (simp add: coincident_world_eq concrete_defs op_defs)

section \<open>Events of a pointer that is not one of the two tracked contacts\<close>

text \<open>
  C10 (as amended). A \<open>move\<close> call whose pointer id matches neither of the first two
  tracked contacts stores no position, and, the two contacts not being at distance \<open>0\<close>,
  the scale change it computes is \<open>0\<close> (the scale is unchanged when no \<^verbatim>\<open>clamp-zoom\<close>
  plugin is registered); apart from that it is processed like any other call: it returns
  true whenever the plugin is active and not paused.
\<close>

theorem unmatched_pointer:
  assumes "touches w = first # second # rest"
    and "id_t first \<noteq> pointerId e" and "id_t second \<noteq> pointerId e"
  shows "fst (move sc e w) = (\<not> paused (plugin w) \<and> active (plugin w)) \<and>
         touches (snd (snd (move sc e w))) = touches w \<and>
         (clampZoom sc = None \<and>
          (\<forall>a0 b0. last_t first = Some a0 \<and> last_t second = Some b0 \<longrightarrow> distance a0 b0 \<noteq> 0)
          \<longrightarrow>
            scale_x (parent (snd (snd (move sc e w)))) = scale_x (parent w) \<and>
            scale_y (parent (snd (snd (move sc e w)))) = scale_y (parent w))"
proof (cases "paused (plugin w) \<or> \<not> active (plugin w)")
  case True
  then show ?thesis by (auto simp: move_gate)
next
  case False
  then have g: "\<not> paused (plugin w)" "active (plugin w)" by simp_all
  have st: "store e (toLocal_global sc (parent w) (global e)) first second = (first, second)"
    using assms(2,3) by (rule store_unmatched)
  show ?thesis
  proof (cases "\<exists>a0 b0. last_t first = Some a0 \<and> last_t second = Some b0 \<and> distance a0 b0 \<noteq> 0")
    case True
    then obtain a0 b0 where
      p: "last_t first = Some a0" "last_t second = Some b0" "distance a0 b0 \<noteq> 0"
      by blast
    obtain evs p' v' where
      cm: "commit sc (plugin w) (parent w) a0 b0 (distance a0 b0) = (evs, p', v')"
      by (cases "commit sc (plugin w) (parent w) a0 b0 (distance a0 b0)") auto
    have "move sc e w =
        (True, evs, w\<lparr>touches := first # second # rest, plugin := p', parent := v'\<rparr>)"
      using g assms(1) st p p(1,2) cm by (rule move_commit)
    with g assms(1) commit_unmoved_scale [OF _ p(3) cm] show ?thesis by simp
  next
    case False
    then have "last_t first = None \<or> last_t second = None \<or>
      (\<exists>a0 b0. last_t first = Some a0 \<and> last_t second = Some b0 \<and> distance a0 b0 = 0)"
      by (cases "last_t first"; cases "last_t second") auto
    with g assms(1) st have "move sc e w = start (w\<lparr>touches := first # second # rest\<rparr>)"
      by (rule move_start)
    with g assms(1) show ?thesis by (simp add: start_fields)
  qed
qed

theorem unmatched_pointer_witness:
  "fst (move stage (pointer 3 9 9) (separated_world DEFAULT_PINCH_OPTIONS)) \<and>
   touches (snd (snd (move stage (pointer 3 9 9) (separated_world DEFAULT_PINCH_OPTIONS)))) =
     [touch_at 1 0 0, touch_at 2 4 0] \<and>
   scale_x (parent (snd (snd (move stage (pointer 3 9 9) (separated_world DEFAULT_PINCH_OPTIONS))))) = 1 \<and>
   scale_y (parent (snd (snd (move stage (pointer 3 9 9) (separated_world DEFAULT_PINCH_OPTIONS))))) = 1"
proof -
  let ?w = "separated_world DEFAULT_PINCH_OPTIONS"
  have h1: "touches ?w = touch_at 1 0 0 # touch_at 2 4 0 # []"
    and h2: "id_t (touch_at 1 0 0) \<noteq> pointerId (pointer 3 9 9)"
    and h3: "id_t (touch_at 2 4 0) \<noteq> pointerId (pointer 3 9 9)"
    and h4: "\<not> paused (plugin ?w) \<and> active (plugin ?w)" and h5: "clampZoom stage = None"
    and h6: "scale_x (parent ?w) = 1" "scale_y (parent ?w) = 1"
    and h7: "\<forall>a0 b0. last_t (touch_at 1 0 0) = Some a0 \<and> last_t (touch_at 2 4 0) = Some b0 \<longrightarrow>
               distance a0 b0 \<noteq> 0"
    by (auto simp: separated_world_eq concrete_defs distance_horizontal)
  from unmatched_pointer [OF h1 h2 h3, of stage] h4 h5 h6 h1 h7
  show ?thesis by simp
qed

text \<open>
  C10 as stated says that such a call emits nothing, returns false and leaves the position
  unchanged. With the contacts at \<open>(0, 0)\<close> and \<open>(4, 0)\<close>, an event of a third pointer
  commits a step: it returns true and emits \<open>zoomed\<close> and \<open>moved\<close>; with the option
  \<^verbatim>\<open>center\<close> set to \<open>(0, 0)\<close> it moves the viewport from \<open>x = 0\<close> to \<open>x = 400\<close>.
\<close>

theorem unmatched_pointer_counterexample:
  "move stage (pointer 3 9 9) (separated_world DEFAULT_PINCH_OPTIONS) =
     (True, [Zoomed (pt 2 0), Moved],
      pinching_world DEFAULT_PINCH_OPTIONS None unit_viewport [touch_at 1 0 0, touch_at 2 4 0]
        \<lparr>plugin := (Pinch DEFAULT_PINCH_OPTIONS)
           \<lparr>active := True, pinching := True, moved := True, lastCenter := Some (pt 2 0)\<rparr>\<rparr>) \<and>
   pos_x (parent (separated_world (DEFAULT_PINCH_OPTIONS\<lparr>center := Some (pt 0 0)\<rparr>))) = 0 \<and>
   pos_x (parent (snd (snd (move stage (pointer 3 9 9)
     (separated_world (DEFAULT_PINCH_OPTIONS\<lparr>center := Some (pt 0 0)\<rparr>)))))) = 400"
  by (simp add: separated_world_eq concrete_defs op_defs distance_horizontal)

section \<open>The invariant of the flags\<close>

text \<open>
  C9. In every state reached from the initial state (\<open>active\<close>, \<open>pinching\<close> and \<open>moved\<close>
  false, \<open>lastCenter\<close> unset) by any sequence of \<open>down\<close>, \<open>move\<close> and \<open>up\<close> calls,
  interleaved in any way with the input layer adding and removing contacts and with
  pausing and resuming, \<open>pinching\<close> implies \<open>active\<close>, and \<open>lastCenter\<close> is non-null only
  while \<open>pinching\<close> is true.
\<close>

theorem pinching_invariant:
  "(pinching (plugin (snd (run sc acts (initial opts v)))) \<longrightarrow>
      active (plugin (snd (run sc acts (initial opts v))))) \<and>
   (lastCenter (plugin (snd (run sc acts (initial opts v)))) \<noteq> None \<longrightarrow>
      pinching (plugin (snd (run sc acts (initial opts v)))))"
  using run_inv [OF initial_inv, of sc acts opts v] by (simp add: session_inv_def)

theorem pinching_invariant_witness:
  "lastCenter (plugin (committed_world DEFAULT_PINCH_OPTIONS)) = Some (pt 3 0) \<and>
   pinching (plugin (committed_world DEFAULT_PINCH_OPTIONS)) \<and>
   active (plugin (committed_world DEFAULT_PINCH_OPTIONS))"
proof -
  have lc: "lastCenter (plugin (committed_world DEFAULT_PINCH_OPTIONS)) = Some (pt 3 0)"
    by (simp add: committed_world_def concrete_defs op_defs distance_horizontal)
  from pinching_invariant
    [of stage "[AddTouch 1, AddTouch 2, Down, Move (pointer 1 0 0), Move (pointer 2 4 0),
                Move (pointer 2 6 0)]" DEFAULT_PINCH_OPTIONS unit_viewport]
  have "(pinching (plugin (committed_world DEFAULT_PINCH_OPTIONS)) \<longrightarrow>
           active (plugin (committed_world DEFAULT_PINCH_OPTIONS))) \<and>
        (lastCenter (plugin (committed_world DEFAULT_PINCH_OPTIONS)) \<noteq> None \<longrightarrow>
           pinching (plugin (committed_world DEFAULT_PINCH_OPTIONS)))"
    by (simp only: committed_world_def)
  with lc show ?thesis by simp
qed

section \<open>The \<open>pinch-start\<close> event\<close>

text \<open>
  C6 (as amended). A \<open>move\<close> call emits \<open>pinch-start\<close> only when the plugin is active,
  not paused and not yet pinching and at least two contacts are tracked, and the call sets
  \<open>pinching\<close>; it does emit it then whenever one of the first two contacts has no recorded
  position, without waiting for both. So within one session \<open>pinch-start\<close> is emitted at
  most once: in every sequence of calls from the initial state, the number of
  \<open>pinch-start\<close> events is the number of \<open>pinch-end\<close> events, plus one while pinching.
\<close>

theorem pinch_start_once:
  "(PinchStart \<in> set (fst (snd (move sc e w))) \<longrightarrow>
      \<not> paused (plugin w) \<and> active (plugin w) \<and> \<not> pinching (plugin w) \<and>
      2 \<le> length (touches w) \<and> pinching (plugin (snd (snd (move sc e w))))) \<and>
   (\<not> paused (plugin w) \<and> active (plugin w) \<and> \<not> pinching (plugin w) \<and>
    2 \<le> length (touches w) \<and>
    (last_t (touches w ! 0) = None \<or> last_t (touches w ! 1) = None) \<longrightarrow>
      PinchStart \<in> set (fst (snd (move sc e w)))) \<and>
   count_list (fst (run sc acts (initial opts v))) PinchStart =
     count_list (fst (run sc acts (initial opts v))) PinchEnd +
     (if pinching (plugin (snd (run sc acts (initial opts v)))) then 1 else 0)"
proof -
  have "open_sessions (initial opts v) = 0"
    by (simp add: open_sessions_def initial_def Pinch_def)
  with run_balance [of sc acts "initial opts v"]
  have "count_list (fst (run sc acts (initial opts v))) PinchStart =
     count_list (fst (run sc acts (initial opts v))) PinchEnd +
     (if pinching (plugin (snd (run sc acts (initial opts v)))) then 1 else 0)"
    by (simp add: open_sessions_def)
  moreover
  have "PinchStart \<in> set (fst (snd (move sc e w))) \<longrightarrow>
      \<not> paused (plugin w) \<and> active (plugin w) \<and> \<not> pinching (plugin w) \<and>
      2 \<le> length (touches w) \<and> pinching (plugin (snd (snd (move sc e w))))"
    using move_emits_start [of sc e w] move_start_sets_pinching [of sc e w] by blast
  moreover
  have "\<not> paused (plugin w) \<and> active (plugin w) \<and> \<not> pinching (plugin w) \<and>
    2 \<le> length (touches w) \<and>
    (last_t (touches w ! 0) = None \<or> last_t (touches w ! 1) = None) \<longrightarrow>
      PinchStart \<in> set (fst (snd (move sc e w)))"
    unfolding move_emits_start by auto
  ultimately show ?thesis by (intro conjI)
qed

theorem pinch_start_once_witness:
  "PinchStart \<in> set (fst (snd (move stage (pointer 1 0 0) two_fingers_down))) \<and>
   pinching (plugin (snd (snd (move stage (pointer 1 0 0) two_fingers_down)))) \<and>
   count_list (fst (run stage
       [AddTouch 1, AddTouch 2, Down, Move (pointer 1 0 0), Move (pointer 2 4 0),
        Move (pointer 2 6 0)] (initial DEFAULT_PINCH_OPTIONS unit_viewport))) PinchStart = 1"
proof -
  let ?acts = "[AddTouch 1, AddTouch 2, Down, Move (pointer 1 0 0), Move (pointer 2 4 0),
        Move (pointer 2 6 0)]"
  have h: "\<not> paused (plugin two_fingers_down) \<and> active (plugin two_fingers_down) \<and>
      \<not> pinching (plugin two_fingers_down) \<and> 2 \<le> length (touches two_fingers_down) \<and>
      (last_t (touches two_fingers_down ! 0) = None \<or>
       last_t (touches two_fingers_down ! 1) = None)"
    by (simp add: two_fingers_down_eq armed_world_def Pinch_def touch_new_def)
  have e: "count_list (fst (run stage ?acts (initial DEFAULT_PINCH_OPTIONS unit_viewport))) PinchEnd = 0"
    by (simp add: concrete_defs op_defs distance_horizontal)
  have p: "pinching (plugin (snd (run stage ?acts (initial DEFAULT_PINCH_OPTIONS unit_viewport))))"
    by (simp add: concrete_defs op_defs distance_horizontal)
  note inst = pinch_start_once [of stage "pointer 1 0 0" two_fingers_down ?acts
      DEFAULT_PINCH_OPTIONS unit_viewport]
  from inst [THEN conjunct2, THEN conjunct1] h
  have s: "PinchStart \<in> set (fst (snd (move stage (pointer 1 0 0) two_fingers_down)))"
    by (rule mp)
  from inst [THEN conjunct1] s
  have "pinching (plugin (snd (snd (move stage (pointer 1 0 0) two_fingers_down))))"
    by (simp only:)
  moreover from inst [THEN conjunct2, THEN conjunct2] e p
  have "count_list (fst (run stage ?acts (initial DEFAULT_PINCH_OPTIONS unit_viewport)))
          PinchStart = 1"
    by (simp only: if_True add_0)
  ultimately show ?thesis using s by (intro conjI)
qed

text \<open>
  C6 as stated says that \<open>pinch-start\<close> is never emitted while one of the two contacts has
  no recorded position. The first \<open>move\<close> after \<^verbatim>\<open>down\<close> emits it, and the second contact
  still has none.
\<close>

theorem pinch_start_before_second_position:
  "fst (snd (move stage (pointer 1 0 0) two_fingers_down)) = [PinchStart] \<and>
   last_t (touches (snd (snd (move stage (pointer 1 0 0) two_fingers_down))) ! 1) = None"
  by (simp add: two_fingers_down_eq concrete_defs op_defs)

section \<open>The fixed centre\<close>

text \<open>
  C3 (as amended). When the \<^verbatim>\<open>center\<close> option is set to a point \<open>P\<close>, every \<open>move\<close> call
  that commits a transform update moves the viewport so that \<open>P\<close> maps to its visual
  centre, regardless of the fingers' middle, when two-finger dragging is disabled
  (\<^verbatim>\<open>noDrag\<close>) or no previous middle is recorded (the first committed step of a session).
  Otherwise the viewport ends displaced from that position by
  \<open>(middle - lastCenter) * factor\<close>, so \<open>P\<close> is at the visual centre only if that
  displacement is zero.
\<close>

theorem fixed_center_step:
  assumes "\<not> paused (plugin w)" and "active (plugin w)"
    and "touches w = first # second # rest"
    and "last_t first = Some a0" and "last_t second = Some b0" and "distance a0 b0 \<noteq> 0"
    and "store e (toLocal_global sc (parent w) (global e)) first second = (first', second')"
    and "last_t first' = Some a" and "last_t second' = Some b"
    and "center (options (plugin w)) = Some c"
    and "m = midpoint a b" and "f = factor (options (plugin w))"
    and "v' = parent (snd (snd (move sc e w)))"
  shows "(noDrag (options (plugin w)) \<or> lastCenter (plugin w) = None \<longrightarrow> centered c v') \<and>
         (\<forall>lc. \<not> noDrag (options (plugin w)) \<and> lastCenter (plugin w) = Some lc \<longrightarrow>
            centered c (v'\<lparr>pos_x := pos_x v' - (px m - px lc) * f,
                            pos_y := pos_y v' - (py m - py lc) * f\<rparr>) \<and>
            (centered c v' \<longleftrightarrow> (px m - px lc) * f = 0 \<and> (py m - py lc) * f = 0))"
proof -
  obtain evs p' u where
    cm: "commit sc (plugin w) (parent w) a b (distance a0 b0) = (evs, p', u)"
    by (cases "commit sc (plugin w) (parent w) a b (distance a0 b0)") auto
  have "move sc e w =
      (True, evs, w\<lparr>touches := first' # second' # rest, plugin := p', parent := u\<rparr>)"
    using assms(1-3) assms(7) assms(4-6) assms(8,9) cm by (rule move_commit)
  with assms(13) have u: "v' = u" by simp
  define z where "z = moveCenter c (clamp sc (zoom (plugin w)
      (change (plugin w) (parent w) (distance a0 b0) (current_distance a b)) (parent w)))"
  have cz: "centered c z"
    unfolding z_def by (rule centered_moveCenter)
  from commit_center [OF assms(10) cm] u assms(11)
  have v': "v' = snd (drag (plugin w) m z)"
    by (simp add: z_def)
  have first: "centered c v'" if "noDrag (options (plugin w)) \<or> lastCenter (plugin w) = None"
    using that v' cz by (simp add: drag_none)
  have second: "centered c (v'\<lparr>pos_x := pos_x v' - (px m - px lc) * f,
                            pos_y := pos_y v' - (py m - py lc) * f\<rparr>) \<and>
            (centered c v' \<longleftrightarrow> (px m - px lc) * f = 0 \<and> (py m - py lc) * f = 0)"
    if "\<not> noDrag (options (plugin w)) \<and> lastCenter (plugin w) = Some lc" for lc
  proof -
    define dx dy where "dx = (px m - px lc) * f" and "dy = (py m - py lc) * f"
    from that v' assms(12)
    have eq: "v' = z\<lparr>pos_x := pos_x z + dx, pos_y := pos_y z + dy\<rparr>"
      by (simp add: drag_some dx_def dy_def)
    from cz have shifted: "centered c (v'\<lparr>pos_x := pos_x v' - dx, pos_y := pos_y v' - dy\<rparr>)"
      by (simp add: eq centered_def)
    from cz have "centered c v' \<longleftrightarrow> dx = 0 \<and> dy = 0"
      by (auto simp: eq centered_def)
    with shifted show ?thesis
      unfolding dx_def dy_def by blast
  qed
  from first second show ?thesis by blast
qed

theorem fixed_center_step_witness:
  "centered (pt 0 0)
     (parent (snd (snd (move stage (pointer 2 6 0) (separated_world fixed_center_options))))) \<and>
   centered (pt 0 0)
     ((parent (snd (snd (move stage (pointer 2 8 0) (committed_world fixed_center_options)))))
        \<lparr>pos_x := pos_x (parent (snd (snd (move stage (pointer 2 8 0)
                      (committed_world fixed_center_options))))) - 1\<rparr>)"
proof -
  let ?w1 = "separated_world fixed_center_options"
  let ?w2 = "committed_world fixed_center_options"
  let ?v1 = "parent (snd (snd (move stage (pointer 2 6 0) ?w1)))"
  let ?v2 = "parent (snd (snd (move stage (pointer 2 8 0) ?w2)))"
  have g1: "\<not> paused (plugin ?w1)" "active (plugin ?w1)"
    and t1: "touches ?w1 = touch_at 1 0 0 # touch_at 2 4 0 # []"
    and c1: "center (options (plugin ?w1)) = Some (pt 0 0)"
    and l1: "noDrag (options (plugin ?w1)) \<or> lastCenter (plugin ?w1) = None"
    by (simp_all add: separated_world_eq fixed_center_options_def concrete_defs)
  have g2: "\<not> paused (plugin ?w2)" "active (plugin ?w2)"
    and t2: "touches ?w2 = touch_at 1 0 0 # touch_at 2 6 0 # []"
    and c2: "center (options (plugin ?w2)) = Some (pt 0 0)"
    and l2: "\<not> noDrag (options (plugin ?w2)) \<and> lastCenter (plugin ?w2) = Some (pt 3 0)"
    and f2: "factor (options (plugin ?w2)) = 1"
    by (simp_all only: committed_world_fixed_eq)
      (simp_all add: fixed_center_options_def concrete_defs)
  have p: "last_t (touch_at 1 0 0) = Some (pt 0 0)" "last_t (touch_at 2 4 0) = Some (pt 4 0)"
    "last_t (touch_at 2 6 0) = Some (pt 6 0)" "last_t (touch_at 2 8 0) = Some (pt 8 0)"
    by (simp_all add: touch_at_def)
  have d: "distance (pt 0 0) (pt 4 0) \<noteq> 0" "distance (pt 0 0) (pt 6 0) \<noteq> 0"
    by (simp_all add: distance_horizontal pt_def)
  have s1: "store (pointer 2 6 0) (toLocal_global stage (parent ?w1) (global (pointer 2 6 0)))
              (touch_at 1 0 0) (touch_at 2 4 0) = (touch_at 1 0 0, touch_at 2 6 0)"
    and s2: "store (pointer 2 8 0) (toLocal_global stage (parent ?w2) (global (pointer 2 8 0)))
              (touch_at 1 0 0) (touch_at 2 6 0) = (touch_at 1 0 0, touch_at 2 8 0)"
    by (simp_all add: store_def concrete_defs)
  from fixed_center_step [OF g1 t1 p(1,2) d(1) s1 p(1,3) c1 refl refl refl] l1
  have "centered (pt 0 0) ?v1" by blast
  moreover
  from fixed_center_step [OF g2 t2 p(1,3) d(2) s2 p(1,4) c2 refl refl refl] l2
  have "centered (pt 0 0)
          (?v2\<lparr>pos_x := pos_x ?v2 - (px (midpoint (pt 0 0) (pt 8 0)) - px (pt 3 0)) *
                              factor (options (plugin ?w2)),
                pos_y := pos_y ?v2 - (py (midpoint (pt 0 0) (pt 8 0)) - py (pt 3 0)) *
                              factor (options (plugin ?w2))\<rparr>)"
    by blast
  then have "centered (pt 0 0) (?v2\<lparr>pos_x := pos_x ?v2 - 1\<rparr>)"
    by (simp add: f2 midpoint_def pt_def)
  ultimately show ?thesis by simp
qed

text \<open>
  C3 as stated asserts this after every committed step. With \<open>P = (0, 0)\<close> and the default
  options, the first committed step centres \<open>P\<close>; the second one, in which the middle
  of the contacts moves from \<open>(3, 0)\<close> to \<open>(4, 0)\<close>, leaves the viewport one unit to the
  right of the centred position (lines 202 to 207 run after \<^verbatim>\<open>moveCenter\<close>).
\<close>

theorem fixed_center_drifts:
  "centered (pt 0 0) (parent (committed_world fixed_center_options)) \<and>
   \<not> centered (pt 0 0)
       (parent (snd (snd (move stage (pointer 2 8 0) (committed_world fixed_center_options)))))"
  by (simp only: committed_world_fixed_eq)
    (simp add: fixed_center_options_def centered_def concrete_defs op_defs distance_horizontal)

section \<open>The sign of the scale\<close>




end
